theory Spec2Isabelle
  imports Complex_Main "HOL-Library.Sublist" "HOL-Library.Signed_Division"
begin

section \<open>The dynamic values a schema receives\<close>

text \<open>
  A Go value of type \<open>any\<close> is modelled by the cases the validators distinguish.
  \<open>VNil\<close> is the nil interface. \<open>VBool\<close> and \<open>VString\<close> are values whose dynamic type is
  exactly \<open>bool\<close> and \<open>string\<close> (the type assertions of the source accept nothing else).
  \<open>VInt\<close> and \<open>VFloat\<close> carry the builtin numeric type of the value. Slices, arrays,
  maps, structs and pointers carry the name that \<open>%T\<close> prints for them. A map is the list
  of its entries in the order \<open>reflect.Value.MapKeys\<close> returns them, each key already
  rendered by \<open>%v\<close>. \<open>VOther\<close> is a value of any other dynamic type (a named scalar type,
  a channel, a function): its \<open>%T\<close> name and whether \<open>isEmptyValue\<close> finds it empty.
  For arrays and structs the flag records what \<open>reflect.Value.IsZero\<close> answers, which
  depends on static types that the model does not keep.

  A \<open>float32\<close> or \<open>float64\<close> is modelled by the real number it denotes;
  infinities and NaN are outside the model. Where the source computes with such numbers,
  every result is rounded to \<open>float64\<close>: that rounding is a parameter of the model.
\<close>

datatype int_type = TInt | TInt8 | TInt16 | TInt32 | TInt64
  | TUint | TUint8 | TUint16 | TUint32 | TUint64

datatype float_type = TFloat32 | TFloat64

datatype gvalue =
    VNil
  | VBool bool
  | VString string
  | VInt int_type int
  | VFloat float_type real
  | VSlice string "gvalue list"
  | VArray string bool "gvalue list"
  | VMap string "(string \<times> gvalue) list"
  | VStruct string bool "sfield list"
  | VPtr string "gvalue option"
  | VOther string bool
and sfield =
    Field (fname: string) (exported: bool) (json_tag: string) (content: fcontent)
and fcontent =
    FPtr "gvalue option"
  | FVal gvalue

text \<open>
  A struct field is its Go name, whether it is exported, the value of its \<open>json\<close> tag,
  and its content: \<open>FPtr\<close> for a field of pointer type (nil, or the value pointed to, as
  \<open>Elem().Interface()\<close> gives it), \<open>FVal\<close> for any other field (what \<open>Interface()\<close>
  gives, \<open>VNil\<close> for a nil interface).
\<close>

text \<open>
  Library functions of Go that the repository calls and does not define are parameters of
  the model: how \<open>%v\<close> prints a float, which strings the two fixed regular expressions
  of the string schema match, and \<open>strings.ToLower\<close>. So is the rounding of a real
  number to the nearest \<open>float64\<close>, which the float arithmetic of the language applies
  to every quotient, difference, conversion and constant.
\<close>

record golib =
  fmt_float :: "real \<Rightarrow> string"
  email_match :: "string \<Rightarrow> bool"
  url_match :: "string \<Rightarrow> bool"
  to_lower :: "string \<Rightarrow> string"
  round64 :: "real \<Rightarrow> real"

section \<open>Paths and failures\<close>

text \<open>
  A path is \<open>[]any\<close>. \<open>PathToString\<close> distinguishes strings, \<open>int\<close> and \<open>int64\<close>
  (both \<open>Idx\<close>), and anything else, which it prints with \<open>%v\<close> (\<open>SegOther\<close> carries
  that rendering).
\<close>

datatype segment = Name string | Idx int | SegOther string

type_synonym path = "segment list"

definition PathAppend :: "path \<Rightarrow> segment \<Rightarrow> path" where
  "PathAppend p part = p @ [part]"

definition ErrCodeRequired :: string where "ErrCodeRequired = ''required''"
definition ErrCodeInvalidType :: string where "ErrCodeInvalidType = ''invalid_type''"
definition ErrCodeTooSmall :: string where "ErrCodeTooSmall = ''too_small''"
definition ErrCodeTooBig :: string where "ErrCodeTooBig = ''too_big''"
definition ErrCodeInvalidString :: string where "ErrCodeInvalidString = ''invalid_string''"
definition ErrCodeInvalidEnumValue :: string where
  "ErrCodeInvalidEnumValue = ''invalid_enum_value''"
definition ErrCodeUnrecognizedKeys :: string where
  "ErrCodeUnrecognizedKeys = ''unrecognized_keys''"
definition ErrCodeCustomValidation :: string where
  "ErrCodeCustomValidation = ''custom_validation''"

type_synonym meta = "(string \<times> gvalue) list"

record ValidationError =
  Path :: path
  Message :: string
  Code :: string
  Meta :: "meta option"

text \<open>
  \<open>ValidationErrors\<close> is a struct with the single field \<open>Errors\<close>; the model is that
  slice. \<open>Add\<close> and \<open>AddWithMeta\<close> append to it (they copy the path, which changes
  nothing for immutable lists).
\<close>

type_synonym ValidationErrors = "ValidationError list"

definition AddWithMeta ::
  "ValidationErrors \<Rightarrow> path \<Rightarrow> string \<Rightarrow> string \<Rightarrow> meta option \<Rightarrow> ValidationErrors" where
  "AddWithMeta e p code message m =
     e @ [\<lparr>Path = p, Message = message, Code = code, Meta = m\<rparr>]"

definition Add :: "ValidationErrors \<Rightarrow> path \<Rightarrow> string \<Rightarrow> string \<Rightarrow> ValidationErrors" where
  "Add e p code message = AddWithMeta e p code message None"

subsection \<open>Decimal rendering (\<open>%d\<close>, and \<open>%v\<close> of an integer)\<close>

definition digit_char :: "nat \<Rightarrow> char" where
  "digit_char d = ''0123456789'' ! (d mod 10)"

fun nat_to_dec :: "nat \<Rightarrow> string" where
  "nat_to_dec n = (if n < 10 then [digit_char n] else nat_to_dec (n div 10) @ [digit_char n])"

declare nat_to_dec.simps [simp del]

definition int_to_dec :: "int \<Rightarrow> string" where
  "int_to_dec i = (if i < 0 then CHR ''-'' # nat_to_dec (nat (- i)) else nat_to_dec (nat i))"

subsection \<open>\<open>PathToString\<close>\<close>

fun render_part :: "segment \<Rightarrow> string" where
  "render_part (Name v) = v"
| "render_part (Idx v) = ''['' @ int_to_dec v @ '']''"
| "render_part (SegOther v) = ''['' @ v @ '']''"

fun join_parts :: "string \<Rightarrow> string list \<Rightarrow> string" where
  "join_parts result [] = result"
| "join_parts result (part # parts) =
     (if prefix ''['' part then join_parts (result @ part) parts
      else join_parts (result @ ''.'' @ part) parts)"

definition PathToString :: "path \<Rightarrow> string" where
  "PathToString p =
     (case map render_part p of
        [] \<Rightarrow> []
      | part0 # parts \<Rightarrow> join_parts part0 parts)"

subsection \<open>\<open>Flatten\<close>\<close>

text \<open>
  The regular expression of \<open>Flatten\<close> is \<open>\[(\d+)\]\<close>: an opening bracket, one or more
  ASCII digits, a closing bracket. \<open>index_here s\<close> says that \<open>s\<close> begins with a match;
  \<open>before_index s\<close> is \<open>Split(s, 2)[0]\<close> when the expression matches somewhere in \<open>s\<close>
  (the text before the leftmost match), and \<open>None\<close> when \<open>MatchString\<close> is false.
\<close>

definition is_digit :: "char \<Rightarrow> bool" where
  "is_digit c = (c \<in> set ''0123456789'')"

fun digits_then_close :: "string \<Rightarrow> bool" where
  "digits_then_close [] = False"
| "digits_then_close (c # cs) = (if is_digit c then digits_then_close cs else c = CHR '']'')"

fun index_here :: "string \<Rightarrow> bool" where
  "index_here (a # b # cs) = (a = CHR ''['' \<and> is_digit b \<and> digits_then_close cs)"
| "index_here _ = False"

fun before_index :: "string \<Rightarrow> string option" where
  "before_index [] = None"
| "before_index (c # cs) =
     (if index_here (c # cs) then Some []
      else map_option ((#) c) (before_index cs))"

record FlattenErrorResult =
  FormErrors :: "string list"
  FieldErrors :: "string \<rightharpoonup> string list"

definition append_field :: "(string \<rightharpoonup> string list) \<Rightarrow> string \<Rightarrow> string \<Rightarrow> (string \<rightharpoonup> string list)" where
  "append_field m k msg = m(k \<mapsto> (case m k of None \<Rightarrow> [] | Some ms \<Rightarrow> ms) @ [msg])"

definition flatten_step :: "FlattenErrorResult \<Rightarrow> ValidationError \<Rightarrow> FlattenErrorResult" where
  "flatten_step result err =
     (let pathStr = PathToString (Path err) in
      if pathStr = [] then result\<lparr>FormErrors := FormErrors result @ [Message err]\<rparr>
      else (case before_index pathStr of
              Some baseField \<Rightarrow>
                result\<lparr>FieldErrors := append_field (FieldErrors result) baseField (Message err)\<rparr>
            | None \<Rightarrow>
                result\<lparr>FieldErrors := append_field (FieldErrors result) pathStr (Message err)\<rparr>))"

definition Flatten :: "ValidationErrors \<Rightarrow> FlattenErrorResult" where
  "Flatten e = foldl flatten_step \<lparr>FormErrors = [], FieldErrors = Map.empty\<rparr> e"

section \<open>The state common to every schema\<close>

text \<open>
  A simple refinement is a function from the value to a verdict and a message. A
  context-aware refinement can only act through the two methods of the context it is
  handed, so it is modelled by the list of calls it makes, in order, on a given value.
\<close>

type_synonym CustomErrorFunc = "path \<Rightarrow> string \<Rightarrow> string \<Rightarrow> string"

type_synonym RefineFunc = "gvalue \<Rightarrow> bool \<times> string"

datatype issue =
    AddIssue path string string
  | AddIssueWithMeta path string string "meta option"

type_synonym SuperRefineFunc = "gvalue \<Rightarrow> issue list"

record BaseSchema =
  required :: bool
  nilable :: bool
  customErrors :: "string \<rightharpoonup> string"
  errorFormatter :: "CustomErrorFunc option"
  refinements :: "RefineFunc list"
  superRefinements :: "SuperRefineFunc list"

definition getErrorMessage ::
  "'a BaseSchema_scheme \<Rightarrow> path \<Rightarrow> string \<Rightarrow> string \<Rightarrow> string" where
  "getErrorMessage b p code defaultMessage =
     (case errorFormatter b of
        Some formatter \<Rightarrow> formatter p code defaultMessage
      | None \<Rightarrow>
          (case customErrors b code of
             Some customMsg \<Rightarrow> customMsg
           | None \<Rightarrow> defaultMessage))"

definition refine_step ::
  "'a BaseSchema_scheme \<Rightarrow> gvalue \<Rightarrow> path \<Rightarrow> ValidationErrors \<Rightarrow> RefineFunc \<Rightarrow> ValidationErrors" where
  "refine_step b v p errors refine =
     (case refine v of (valid, message) \<Rightarrow>
        if \<not> valid then
          Add errors p ErrCodeCustomValidation
            (if message = []
             then getErrorMessage b p ErrCodeCustomValidation ''Custom validation failed''
             else getErrorMessage b p ErrCodeCustomValidation message)
        else errors)"

definition applyRefinements ::
  "'a BaseSchema_scheme \<Rightarrow> gvalue \<Rightarrow> path \<Rightarrow> ValidationErrors \<Rightarrow> ValidationErrors" where
  "applyRefinements b v p errors = foldl (refine_step b v p) errors (refinements b)"

text \<open>The context of a context-aware refinement: the collection and the base path.\<close>

fun ctx_call :: "path \<Rightarrow> ValidationErrors \<Rightarrow> issue \<Rightarrow> ValidationErrors" where
  "ctx_call basePath errors (AddIssue rel code message) =
     Add errors (foldl PathAppend basePath rel) code message"
| "ctx_call basePath errors (AddIssueWithMeta rel code message m) =
     AddWithMeta errors (foldl PathAppend basePath rel) code message m"

definition applySuperRefinements ::
  "'a BaseSchema_scheme \<Rightarrow> gvalue \<Rightarrow> path \<Rightarrow> ValidationErrors \<Rightarrow> ValidationErrors" where
  "applySuperRefinements b v p errors =
     foldl (\<lambda>errors superRefine. foldl (ctx_call p) errors (superRefine v))
       errors (superRefinements b)"

text \<open>
  \<open>Validate\<close> returns a pointer to the collection, nil meaning valid: an option.
  The one run-time panic the validators can raise themselves is the integer division by
  zero of an integer schema built with \<open>MultipleOf(0)\<close>.
\<close>

datatype panic = DivideByZero

type_synonym vresult = "panic + ValidationErrors option"

text \<open>The common ending of every \<open>Validate\<close>.\<close>

definition finish ::
  "'a BaseSchema_scheme \<Rightarrow> gvalue \<Rightarrow> path \<Rightarrow> ValidationErrors \<Rightarrow> vresult" where
  "finish b v p errors =
     (let errors = applyRefinements b v p errors;
          errors = applySuperRefinements b v p errors
      in if length errors = 0 then Inr None else Inr (Some errors))"

text \<open>The common beginning: the nil interface.\<close>

definition on_nil :: "'a BaseSchema_scheme \<Rightarrow> path \<Rightarrow> vresult" where
  "on_nil b p =
     (if \<not> nilable b
      then Inr (Some (Add [] p ErrCodeRequired (getErrorMessage b p ErrCodeRequired ''Required'')))
      else Inr None)"

definition invalid_type :: "'a BaseSchema_scheme \<Rightarrow> path \<Rightarrow> string \<Rightarrow> vresult" where
  "invalid_type b p defaultMessage =
     Inr (Some (Add [] p ErrCodeInvalidType
                  (getErrorMessage b p ErrCodeInvalidType defaultMessage)))"

text \<open>What \<open>%T\<close> prints.\<close>

fun int_type_name :: "int_type \<Rightarrow> string" where
  "int_type_name TInt = ''int''"
| "int_type_name TInt8 = ''int8''"
| "int_type_name TInt16 = ''int16''"
| "int_type_name TInt32 = ''int32''"
| "int_type_name TInt64 = ''int64''"
| "int_type_name TUint = ''uint''"
| "int_type_name TUint8 = ''uint8''"
| "int_type_name TUint16 = ''uint16''"
| "int_type_name TUint32 = ''uint32''"
| "int_type_name TUint64 = ''uint64''"

fun type_name :: "gvalue \<Rightarrow> string" where
  "type_name VNil = ''<nil>''"
| "type_name (VBool _) = ''bool''"
| "type_name (VString _) = ''string''"
| "type_name (VInt t _) = int_type_name t"
| "type_name (VFloat TFloat32 _) = ''float32''"
| "type_name (VFloat TFloat64 _) = ''float64''"
| "type_name (VSlice t _) = t"
| "type_name (VArray t _ _) = t"
| "type_name (VMap t _) = t"
| "type_name (VStruct t _ _) = t"
| "type_name (VPtr t _) = t"
| "type_name (VOther t _) = t"

section \<open>Scalar schemas\<close>

text \<open>\<open>strings.Join\<close>.\<close>

fun join :: "string list \<Rightarrow> string \<Rightarrow> string" where
  "join [] sep = []"
| "join [x] sep = x"
| "join (x # y # ys) sep = x @ sep @ join (y # ys) sep"

subsection \<open>String\<close>

text \<open>
  A compiled regular expression is used only through \<open>MatchString\<close>, so the \<open>regex\<close>
  field is that predicate. Lengths are Go's \<open>len\<close>: a string is its list of bytes.
\<close>

record StringSchema = BaseSchema +
  minLength :: "int option"
  maxLength :: "int option"
  email :: bool
  url :: bool
  regex :: "(string \<Rightarrow> bool) option"
  regexMessage :: string
  oneOf :: "string list"
  notOneOf :: "string list"
  startsWith :: "string option"
  endsWith :: "string option"
  includes_s :: "string option"

definition String_constraints :: "golib \<Rightarrow> StringSchema \<Rightarrow> string \<Rightarrow> path \<Rightarrow> ValidationErrors" where
  "String_constraints L s str p =
     (let errors = [];
          errors = (case minLength s of
                      Some m \<Rightarrow>
                        if int (length str) < m then
                          Add errors p ErrCodeTooSmall (getErrorMessage s p ErrCodeTooSmall
                            (''String must be at least '' @ int_to_dec m
                              @ '' character(s) long, got '' @ int_to_dec (int (length str))))
                        else errors
                    | None \<Rightarrow> errors);
          errors = (case maxLength s of
                      Some m \<Rightarrow>
                        if int (length str) > m then
                          Add errors p ErrCodeTooBig (getErrorMessage s p ErrCodeTooBig
                            (''String must be at most '' @ int_to_dec m
                              @ '' character(s) long, got '' @ int_to_dec (int (length str))))
                        else errors
                    | None \<Rightarrow> errors);
          errors = (if email s \<and> \<not> email_match L str then
                      Add errors p ErrCodeInvalidString
                        (getErrorMessage s p ErrCodeInvalidString ''Invalid email format'')
                    else errors);
          errors = (if url s \<and> \<not> url_match L str then
                      Add errors p ErrCodeInvalidString
                        (getErrorMessage s p ErrCodeInvalidString ''Invalid URL format'')
                    else errors);
          errors = (case regex s of
                      Some matchString \<Rightarrow>
                        if \<not> matchString str then
                          Add errors p ErrCodeInvalidString
                            (if regexMessage s = []
                             then getErrorMessage s p ErrCodeInvalidString
                                    ''String does not match required pattern''
                             else regexMessage s)
                        else errors
                    | None \<Rightarrow> errors);
          errors = (if length (oneOf s) > 0 \<and> \<not> List.member (oneOf s) str then
                      Add errors p ErrCodeInvalidEnumValue
                        (getErrorMessage s p ErrCodeInvalidEnumValue
                          (''String must be one of: '' @ join (oneOf s) '', ''))
                    else errors);
          errors = (if length (notOneOf s) > 0 \<and> List.member (notOneOf s) str then
                      Add errors p ErrCodeInvalidEnumValue
                        (getErrorMessage s p ErrCodeInvalidEnumValue
                          (''String must not be one of: '' @ join (notOneOf s) '', ''))
                    else errors);
          errors = (case startsWith s of
                      Some pre \<Rightarrow>
                        if \<not> prefix pre str then
                          Add errors p ErrCodeInvalidString
                            (getErrorMessage s p ErrCodeInvalidString
                              (''String must start with '' @ [CHR 0x27] @ pre @ [CHR 0x27]))
                        else errors
                    | None \<Rightarrow> errors);
          errors = (case endsWith s of
                      Some suf \<Rightarrow>
                        if \<not> suffix suf str then
                          Add errors p ErrCodeInvalidString
                            (getErrorMessage s p ErrCodeInvalidString
                              (''String must end with '' @ [CHR 0x27] @ suf @ [CHR 0x27]))
                        else errors
                    | None \<Rightarrow> errors);
          errors = (case includes_s s of
                      Some sub \<Rightarrow>
                        if \<not> sublist sub str then
                          Add errors p ErrCodeInvalidString
                            (getErrorMessage s p ErrCodeInvalidString
                              (''String must include '' @ [CHR 0x27] @ sub @ [CHR 0x27]))
                        else errors
                    | None \<Rightarrow> errors)
      in errors)"

definition StringSchema_Validate :: "golib \<Rightarrow> StringSchema \<Rightarrow> gvalue \<Rightarrow> path \<Rightarrow> vresult" where
  "StringSchema_Validate L s v p =
     (case v of
        VNil \<Rightarrow> on_nil s p
      | VString str \<Rightarrow> finish s v p (String_constraints L s str p)
      | _ \<Rightarrow> invalid_type s p (''Expected string, got '' @ type_name v))"

subsection \<open>Integer\<close>

record IntSchema = BaseSchema +
  min_i :: "int option"
  max_i :: "int option"
  positive_i :: bool
  negative_i :: bool
  nonNegative_i :: bool
  nonPositive_i :: bool
  multipleOf_i :: "int option"

text \<open>
  The conversion \<open>int64(v)\<close> keeps the low 64 bits, read as a signed number (\<open>int\<close>
  and \<open>uint\<close> are taken to be 64 bits wide); only \<open>uint64\<close> is checked against the
  largest \<open>int64\<close> first (\<open>None\<close> is that early return).
\<close>

fun to_int64 :: "int_type \<Rightarrow> int \<Rightarrow> int option" where
  "to_int64 TUint64 n =
     (if n > 9223372036854775807 then None else Some (signed_take_bit 63 n))"
| "to_int64 _ n = Some (signed_take_bit 63 n)"

text \<open>
  The type switch of the source sets a flag \<open>isInt\<close> in every branch that does not
  return, so the test of that flag after the switch never fires; the model leaves it out
  (and likewise \<open>isFloat\<close> in the float schema).
\<close>

definition Int_constraints :: "IntSchema \<Rightarrow> int \<Rightarrow> path \<Rightarrow> ValidationErrors" where
  "Int_constraints s num p =
     (let errors = [];
          errors = (case min_i s of
                      Some m \<Rightarrow>
                        if num < m then
                          Add errors p ErrCodeTooSmall (getErrorMessage s p ErrCodeTooSmall
                            (''Number must be greater than or equal to '' @ int_to_dec m
                              @ '', got '' @ int_to_dec num))
                        else errors
                    | None \<Rightarrow> errors);
          errors = (case max_i s of
                      Some m \<Rightarrow>
                        if num > m then
                          Add errors p ErrCodeTooBig (getErrorMessage s p ErrCodeTooBig
                            (''Number must be less than or equal to '' @ int_to_dec m
                              @ '', got '' @ int_to_dec num))
                        else errors
                    | None \<Rightarrow> errors);
          errors = (if positive_i s \<and> num \<le> 0 then
                      Add errors p ErrCodeTooSmall (getErrorMessage s p ErrCodeTooSmall
                        (''Number must be positive (> 0), got '' @ int_to_dec num))
                    else errors);
          errors = (if negative_i s \<and> num \<ge> 0 then
                      Add errors p ErrCodeTooBig (getErrorMessage s p ErrCodeTooBig
                        (''Number must be negative (< 0), got '' @ int_to_dec num))
                    else errors);
          errors = (if nonNegative_i s \<and> num < 0 then
                      Add errors p ErrCodeTooSmall (getErrorMessage s p ErrCodeTooSmall
                        (''Number must be non-negative (>= 0), got '' @ int_to_dec num))
                    else errors);
          errors = (if nonPositive_i s \<and> num > 0 then
                      Add errors p ErrCodeTooBig (getErrorMessage s p ErrCodeTooBig
                        (''Number must be non-positive (<= 0), got '' @ int_to_dec num))
                    else errors)
      in errors)"

text \<open>
  The multiple-of check computes \<open>num % d\<close>, which panics when \<open>d\<close> is zero; Go's
  remainder truncates towards zero (\<open>smod\<close>).
\<close>

definition Int_multipleOf ::
  "IntSchema \<Rightarrow> int \<Rightarrow> path \<Rightarrow> ValidationErrors \<Rightarrow> panic + ValidationErrors" where
  "Int_multipleOf s num p errors =
     (case multipleOf_i s of
        Some d \<Rightarrow>
          if d = 0 then Inl DivideByZero
          else if num smod d \<noteq> 0 then
            Inr (Add errors p ErrCodeInvalidType (getErrorMessage s p ErrCodeInvalidType
                   (''Number must be a multiple of '' @ int_to_dec d
                     @ '', got '' @ int_to_dec num)))
          else Inr errors
      | None \<Rightarrow> Inr errors)"

definition IntSchema_Validate :: "IntSchema \<Rightarrow> gvalue \<Rightarrow> path \<Rightarrow> vresult" where
  "IntSchema_Validate s v p =
     (case v of
        VNil \<Rightarrow> on_nil s p
      | VInt t n \<Rightarrow>
          (case to_int64 t n of
             None \<Rightarrow> invalid_type s p (''Expected integer, got '' @ type_name v)
           | Some num \<Rightarrow>
               (case Int_multipleOf s num p (Int_constraints s num p) of
                  Inl e \<Rightarrow> Inl e
                | Inr errors \<Rightarrow> finish s v p errors))
      | VFloat _ _ \<Rightarrow> invalid_type s p ''Expected integer, got float''
      | _ \<Rightarrow> invalid_type s p (''Expected integer, got '' @ type_name v))"

subsection \<open>Float\<close>

record FloatSchema = BaseSchema +
  min_f :: "real option"
  max_f :: "real option"
  positive_f :: bool
  negative_f :: bool
  nonNegative_f :: bool
  nonPositive_f :: bool
  multipleOf_f :: "real option"

text \<open>
  The conversion \<open>int64(x)\<close> of a float discards the fraction (towards zero). For a
  quotient beyond the range of \<open>int64\<close> Go leaves the result to the implementation;
  the model keeps the truncation there too.
\<close>

definition float_to_int64 :: "real \<Rightarrow> int" where
  "float_to_int64 x = (if x < 0 then \<lceil>x\<rceil> else \<lfloor>x\<rfloor>)"

definition Float_constraints :: "golib \<Rightarrow> FloatSchema \<Rightarrow> real \<Rightarrow> path \<Rightarrow> ValidationErrors" where
  "Float_constraints L s num p =
     (let errors = [];
          errors = (case min_f s of
                      Some m \<Rightarrow>
                        if num < m then
                          Add errors p ErrCodeTooSmall (getErrorMessage s p ErrCodeTooSmall
                            (''Number must be greater than or equal to '' @ fmt_float L m
                              @ '', got '' @ fmt_float L num))
                        else errors
                    | None \<Rightarrow> errors);
          errors = (case max_f s of
                      Some m \<Rightarrow>
                        if num > m then
                          Add errors p ErrCodeTooBig (getErrorMessage s p ErrCodeTooBig
                            (''Number must be less than or equal to '' @ fmt_float L m
                              @ '', got '' @ fmt_float L num))
                        else errors
                    | None \<Rightarrow> errors);
          errors = (if positive_f s \<and> num \<le> 0 then
                      Add errors p ErrCodeTooSmall (getErrorMessage s p ErrCodeTooSmall
                        (''Number must be positive (> 0), got '' @ fmt_float L num))
                    else errors);
          errors = (if negative_f s \<and> num \<ge> 0 then
                      Add errors p ErrCodeTooBig (getErrorMessage s p ErrCodeTooBig
                        (''Number must be negative (< 0), got '' @ fmt_float L num))
                    else errors);
          errors = (if nonNegative_f s \<and> num < 0 then
                      Add errors p ErrCodeTooSmall (getErrorMessage s p ErrCodeTooSmall
                        (''Number must be non-negative (>= 0), got '' @ fmt_float L num))
                    else errors);
          errors = (if nonPositive_f s \<and> num > 0 then
                      Add errors p ErrCodeTooBig (getErrorMessage s p ErrCodeTooBig
                        (''Number must be non-positive (<= 0), got '' @ fmt_float L num))
                    else errors)
      in errors)"

text \<open>
  The multiple-of check computes, in \<open>float64\<close>, the quotient \<open>remainder\<close> and then
  \<open>remainder - float64(int64(remainder))\<close>, which it compares with the constants
  \<open>0.0001\<close> and \<open>0.9999\<close>. (A zero divisor makes the quotient an infinity or NaN
  in Go, for which neither comparison holds; the model, where \<open>x / 0 = 0\<close>, adds no
  failure either.)
\<close>

definition Float_fraction :: "golib \<Rightarrow> real \<Rightarrow> real \<Rightarrow> real" where
  "Float_fraction L num d =
     (let remainder = round64 L (num / d)
      in round64 L (remainder - round64 L (real_of_int (float_to_int64 remainder))))"

definition Float_multipleOf ::
  "golib \<Rightarrow> FloatSchema \<Rightarrow> real \<Rightarrow> path \<Rightarrow> ValidationErrors \<Rightarrow> ValidationErrors" where
  "Float_multipleOf L s num p errors =
     (case multipleOf_f s of
        Some d \<Rightarrow>
          if Float_fraction L num d > round64 L 0.0001
             \<and> Float_fraction L num d < round64 L 0.9999
          then
            Add errors p ErrCodeInvalidType (getErrorMessage s p ErrCodeInvalidType
              (''Number must be a multiple of '' @ fmt_float L d
                @ '', got '' @ fmt_float L num))
          else errors
      | None \<Rightarrow> errors)"

definition FloatSchema_Validate :: "golib \<Rightarrow> FloatSchema \<Rightarrow> gvalue \<Rightarrow> path \<Rightarrow> vresult" where
  "FloatSchema_Validate L s v p =
     (case v of
        VNil \<Rightarrow> on_nil s p
      | VInt _ _ \<Rightarrow> invalid_type s p ''Expected float, got integer''
      | VFloat _ num \<Rightarrow>
          finish s v p (Float_multipleOf L s num p (Float_constraints L s num p))
      | _ \<Rightarrow> invalid_type s p (''Expected float, got '' @ type_name v))"

subsection \<open>Boolean\<close>

type_synonym BoolSchema = BaseSchema

definition BoolSchema_Validate :: "BoolSchema \<Rightarrow> gvalue \<Rightarrow> path \<Rightarrow> vresult" where
  "BoolSchema_Validate s v p =
     (case v of
        VNil \<Rightarrow> on_nil s p
      | VBool _ \<Rightarrow> finish s v p []
      | _ \<Rightarrow> invalid_type s p (''Expected boolean, got '' @ type_name v))"

section \<open>Composite schemas\<close>

text \<open>
  \<open>Schema\<close> is the interface through which a composite schema reaches its children; it
  is used only through its \<open>Validate\<close> method, so a child is that function.
\<close>

type_synonym Schema = "gvalue \<Rightarrow> path \<Rightarrow> vresult"

text \<open>
  The loops of the composite schemas call a child and append its failures when the result
  is not nil. \<open>collect errors rs\<close> takes the results of the calls in the order the loop
  makes them; a panic in a child ends the loop.
\<close>

fun collect :: "ValidationErrors \<Rightarrow> vresult list \<Rightarrow> panic + ValidationErrors" where
  "collect errors [] = Inr errors"
| "collect errors (Inl e # rs) = Inl e"
| "collect errors (Inr None # rs) = collect errors rs"
| "collect errors (Inr (Some fieldErrors) # rs) = collect (errors @ fieldErrors) rs"

subsection \<open>Array\<close>

record ArraySchema = BaseSchema +
  minLength_a :: "int option"
  maxLength_a :: "int option"
  nonEmpty :: bool

text \<open>\<open>reflect.Kind\<close> is \<open>Slice\<close> or \<open>Array\<close>: the elements, each as \<open>Interface()\<close> gives it.\<close>

fun as_slice :: "gvalue \<Rightarrow> gvalue list option" where
  "as_slice (VSlice _ xs) = Some xs"
| "as_slice (VArray _ _ xs) = Some xs"
| "as_slice _ = None"

definition Array_constraints :: "ArraySchema \<Rightarrow> gvalue list \<Rightarrow> path \<Rightarrow> ValidationErrors" where
  "Array_constraints s slice p =
     (let errors = [];
          errors = (if nonEmpty s \<and> length slice = 0 then
                      Add errors p ErrCodeTooSmall
                        (getErrorMessage s p ErrCodeTooSmall ''Array must not be empty'')
                    else errors);
          errors = (case minLength_a s of
                      Some m \<Rightarrow>
                        if int (length slice) < m then
                          Add errors p ErrCodeTooSmall (getErrorMessage s p ErrCodeTooSmall
                            (''Array must have at least '' @ int_to_dec m
                              @ '' element(s), got '' @ int_to_dec (int (length slice))))
                        else errors
                    | None \<Rightarrow> errors);
          errors = (case maxLength_a s of
                      Some m \<Rightarrow>
                        if int (length slice) > m then
                          Add errors p ErrCodeTooBig (getErrorMessage s p ErrCodeTooBig
                            (''Array must have at most '' @ int_to_dec m
                              @ '' element(s), got '' @ int_to_dec (int (length slice))))
                        else errors
                    | None \<Rightarrow> errors)
      in errors)"

definition ArraySchema_Validate :: "ArraySchema \<Rightarrow> Schema \<Rightarrow> gvalue \<Rightarrow> path \<Rightarrow> vresult" where
  "ArraySchema_Validate s elementSchema v p =
     (case v of
        VNil \<Rightarrow> on_nil s p
      | _ \<Rightarrow>
          (case as_slice v of
             None \<Rightarrow> invalid_type s p (''Expected array, got '' @ type_name v)
           | Some slice \<Rightarrow>
               (case collect (Array_constraints s slice p)
                       (map (\<lambda>(i, element). elementSchema element (PathAppend p (Idx (int i))))
                          (enumerate 0 slice)) of
                  Inl e \<Rightarrow> Inl e
                | Inr errors \<Rightarrow> finish s v p errors)))"

subsection \<open>Map\<close>

text \<open>
  The shape is a Go map from field names to schemas. Go leaves the order in which a map is
  ranged over unspecified; the shape is the list of its entries in the order the loop
  visits them, and the keys of \<open>obj\<close> are visited in the order \<open>obj_keys\<close> lists them.
\<close>

record MapSchema = BaseSchema +
  strict_m :: bool

definition build_obj :: "(string \<times> gvalue) list \<Rightarrow> (string \<rightharpoonup> gvalue)" where
  "build_obj entries = foldl (\<lambda>obj (keyStr, x). obj(keyStr \<mapsto> x)) Map.empty entries"

definition obj_keys :: "(string \<times> gvalue) list \<Rightarrow> string list" where
  "obj_keys entries = remdups (map fst entries)"

definition Map_field ::
  "(string \<rightharpoonup> gvalue) \<Rightarrow> path \<Rightarrow> string \<times> Schema \<Rightarrow> vresult" where
  "Map_field obj p = (\<lambda>(fieldName, schema).
     (let fieldPath = PathAppend p (Name fieldName);
          fieldValue = (case obj fieldName of Some x \<Rightarrow> x | None \<Rightarrow> VNil)
      in schema fieldValue fieldPath))"

definition Map_unknown_key ::
  "MapSchema \<Rightarrow> (string \<times> Schema) list \<Rightarrow> path \<Rightarrow> ValidationErrors \<Rightarrow> string \<Rightarrow> ValidationErrors" where
  "Map_unknown_key s shape p errors key =
     (if map_of shape key = None then
        (let keyPath = PathAppend p (Name key) in
         Add errors keyPath ErrCodeUnrecognizedKeys
           (getErrorMessage s keyPath ErrCodeUnrecognizedKeys
              (''Unrecognized key '' @ [CHR 0x27] @ key @ [CHR 0x27])))
      else errors)"

definition MapSchema_Validate ::
  "MapSchema \<Rightarrow> (string \<times> Schema) list \<Rightarrow> gvalue \<Rightarrow> path \<Rightarrow> vresult" where
  "MapSchema_Validate s shape v p =
     (case v of
        VNil \<Rightarrow> on_nil s p
      | VMap _ entries \<Rightarrow>
          (let obj = build_obj entries in
           case collect [] (map (Map_field obj p) shape) of
             Inl e \<Rightarrow> Inl e
           | Inr errors \<Rightarrow>
               (let errors = (if strict_m s
                              then foldl (Map_unknown_key s shape p) errors (obj_keys entries)
                              else errors)
                in finish s v p errors))
      | _ \<Rightarrow> invalid_type s p (''Expected map, got '' @ type_name v))"

text \<open>\<open>isEmptyValue\<close>, by \<open>reflect.Kind\<close>.\<close>

fun isEmptyValue :: "gvalue \<Rightarrow> bool" where
  "isEmptyValue VNil = True"
| "isEmptyValue (VString str) = (length str = 0)"
| "isEmptyValue (VSlice _ xs) = (length xs = 0)"
| "isEmptyValue (VMap _ entries) = (length entries = 0)"
| "isEmptyValue (VPtr _ x) = (x = None)"
| "isEmptyValue (VBool b) = (\<not> b)"
| "isEmptyValue (VInt _ n) = (n = 0)"
| "isEmptyValue (VFloat _ x) = (x = 0)"
| "isEmptyValue (VArray _ zero _) = zero"
| "isEmptyValue (VStruct _ zero _) = zero"
| "isEmptyValue (VOther _ e) = e"

subsection \<open>Struct\<close>

record StructSchema = BaseSchema +
  strict_s :: bool

definition getStructFieldName :: "golib \<Rightarrow> sfield \<Rightarrow> string" where
  "getStructFieldName L field =
     (let jsonTag = json_tag field in
      if jsonTag \<noteq> [] \<and> jsonTag \<noteq> ''-'' then takeWhile (\<lambda>c. c \<noteq> CHR '','') jsonTag
      else (let fieldName = fname field in
            if length fieldName > 0 then to_lower L (take 1 fieldName) @ drop 1 fieldName
            else fieldName))"

definition build_fieldMap :: "golib \<Rightarrow> sfield list \<Rightarrow> (string \<rightharpoonup> sfield)" where
  "build_fieldMap L fs =
     foldl (\<lambda>fieldMap field.
              if \<not> exported field then fieldMap
              else fieldMap(getStructFieldName L field \<mapsto> field))
       Map.empty fs"

definition Struct_field ::
  "(string \<rightharpoonup> sfield) \<Rightarrow> path \<Rightarrow> string \<times> Schema \<Rightarrow> vresult" where
  "Struct_field fieldMap p = (\<lambda>(schemaFieldName, schema).
     (let fieldPath = PathAppend p (Name schemaFieldName) in
      case fieldMap schemaFieldName of
        None \<Rightarrow> schema VNil fieldPath
      | Some structField \<Rightarrow>
          (let fieldInterface = (case content structField of
                                   FPtr None \<Rightarrow> VNil
                                 | FPtr (Some x) \<Rightarrow> x
                                 | FVal x \<Rightarrow> x);
               hasOmitempty = sublist ''omitempty'' (json_tag structField);
               fieldInterface = (if hasOmitempty \<and> isEmptyValue fieldInterface then VNil
                                 else fieldInterface)
           in schema fieldInterface fieldPath)))"

definition Struct_unknown_field ::
  "golib \<Rightarrow> StructSchema \<Rightarrow> (string \<times> Schema) list \<Rightarrow> path \<Rightarrow> ValidationErrors \<Rightarrow> sfield
     \<Rightarrow> ValidationErrors" where
  "Struct_unknown_field L s shape p errors field =
     (if \<not> exported field then errors
      else (let fieldName = getStructFieldName L field in
            if map_of shape fieldName = None then
              (let keyPath = PathAppend p (Name fieldName) in
               Add errors keyPath ErrCodeUnrecognizedKeys
                 (getErrorMessage s keyPath ErrCodeUnrecognizedKeys
                    (''Unrecognized field '' @ [CHR 0x27] @ fieldName @ [CHR 0x27])))
            else errors))"

text \<open>
  After the nil interface, a pointer is followed once: a nil pointer is treated as the nil
  interface, any other pointer is replaced by what it points to, which must be a struct.
  The refinements receive the value as it was passed.

  The field loop of the source has two more branches, for a field that \<open>FieldByName\<close>
  does not find and for one that cannot be turned into an interface value. Neither can be
  taken: the loop only looks up exported fields that \<open>typ.Field(i)\<close> has just listed.
  The model leaves them out.
\<close>

fun struct_fields :: "gvalue \<Rightarrow> sfield list option" where
  "struct_fields (VStruct _ _ fs) = Some fs"
| "struct_fields _ = None"

definition Struct_body ::
  "golib \<Rightarrow> StructSchema \<Rightarrow> (string \<times> Schema) list \<Rightarrow> gvalue \<Rightarrow> gvalue \<Rightarrow> path \<Rightarrow> vresult" where
  "Struct_body L s shape v val p =
     (case struct_fields val of
        None \<Rightarrow> invalid_type s p (''Expected struct, got '' @ type_name v)
      | Some fs \<Rightarrow>
          (let fieldMap = build_fieldMap L fs in
           case collect [] (map (Struct_field fieldMap p) shape) of
             Inl e \<Rightarrow> Inl e
           | Inr errors \<Rightarrow>
               (let errors = (if strict_s s
                              then foldl (Struct_unknown_field L s shape p) errors fs
                              else errors)
                in finish s v p errors)))"

definition StructSchema_Validate ::
  "golib \<Rightarrow> StructSchema \<Rightarrow> (string \<times> Schema) list \<Rightarrow> gvalue \<Rightarrow> path \<Rightarrow> vresult" where
  "StructSchema_Validate L s shape v p =
     (case v of
        VNil \<Rightarrow> on_nil s p
      | VPtr _ None \<Rightarrow> on_nil s p
      | VPtr _ (Some val) \<Rightarrow> Struct_body L s shape v val p
      | _ \<Rightarrow> Struct_body L s shape v v p)"

section \<open>The schema tree and its \<open>Validate\<close>\<close>

text \<open>
  The seven schema types of the repository. A composite holds its children, so the
  configuration records above leave out \<open>elementSchema\<close> and \<open>shape\<close> and the
  constructors carry them. \<open>Validate\<close> is the method dispatch of the \<open>Schema\<close> interface.
\<close>

datatype schema =
    SString StringSchema
  | SInt IntSchema
  | SFloat FloatSchema
  | SBool BoolSchema
  | SArray ArraySchema schema
  | SMap MapSchema "(string \<times> schema) list"
  | SStruct StructSchema "(string \<times> schema) list"

fun Validate :: "golib \<Rightarrow> schema \<Rightarrow> gvalue \<Rightarrow> path \<Rightarrow> vresult" where
  "Validate L (SString s) v p = StringSchema_Validate L s v p"
| "Validate L (SInt s) v p = IntSchema_Validate s v p"
| "Validate L (SFloat s) v p = FloatSchema_Validate L s v p"
| "Validate L (SBool s) v p = BoolSchema_Validate s v p"
| "Validate L (SArray s elementSchema) v p =
     ArraySchema_Validate s (\<lambda>x q. Validate L elementSchema x q) v p"
| "Validate L (SMap s shape) v p =
     MapSchema_Validate s (map (\<lambda>(name, sch). (name, \<lambda>x q. Validate L sch x q)) shape) v p"
| "Validate L (SStruct s shape) v p =
     StructSchema_Validate L s (map (\<lambda>(name, sch). (name, \<lambda>x q. Validate L sch x q)) shape) v p"

section \<open>Constructors\<close>

text \<open>
  \<open>String()\<close>, \<open>Int()\<close>, \<open>Float()\<close>, \<open>Bool()\<close>, \<open>Array(e)\<close>, \<open>Map(shape)\<close> and
  \<open>Struct(shape)\<close> set \<open>required\<close> and leave every other field at its zero value. The
  builder methods (\<open>Min\<close>, \<open>Nilable\<close>, \<open>Refine\<close>, ...) each set or extend one field: a
  record update.
\<close>

definition Base_zero :: BaseSchema where
  "Base_zero = \<lparr>required = True, nilable = False, customErrors = Map.empty,
     errorFormatter = None, refinements = [], superRefinements = []\<rparr>"

definition String_schema :: StringSchema where
  "String_schema = BaseSchema.extend Base_zero
     (StringSchema.fields None None False False None [] [] [] None None None)"

definition Int_schema :: IntSchema where
  "Int_schema = BaseSchema.extend Base_zero
     (IntSchema.fields None None False False False False None)"

definition Float_schema :: FloatSchema where
  "Float_schema = BaseSchema.extend Base_zero
     (FloatSchema.fields None None False False False False None)"

definition Bool_schema :: BoolSchema where
  "Bool_schema = Base_zero"

definition Array_schema :: ArraySchema where
  "Array_schema = BaseSchema.extend Base_zero (ArraySchema.fields None None False)"

definition Map_schema :: MapSchema where
  "Map_schema = BaseSchema.extend Base_zero (MapSchema.fields False)"

definition Struct_schema :: StructSchema where
  "Struct_schema = BaseSchema.extend Base_zero (StructSchema.fields False)"

text \<open>
  A library instance for evaluating concrete inputs: every float prints as \<open>?\<close>, the two
  fixed patterns match nothing, \<open>strings.ToLower\<close> maps the ASCII capitals, and
  rounding leaves a number as it is, which is what it does to a number that is a
  \<open>float64\<close> already. It is used only on inputs where every quotient and difference
  computed is one, and where the comparisons with the constants \<open>0.0001\<close> and
  \<open>0.9999\<close> come out the same whether or not those are rounded.
\<close>

definition ascii_lower :: "char \<Rightarrow> char" where
  "ascii_lower c =
     (if of_char c \<ge> (65::nat) \<and> of_char c \<le> (90::nat) then char_of (of_char c + (32::nat)) else c)"

definition lib0 :: golib where
  "lib0 = \<lparr>fmt_float = (\<lambda>_. ''?''), email_match = (\<lambda>_. False), url_match = (\<lambda>_. False),
            to_lower = map ascii_lower, round64 = (\<lambda>x. x)\<rparr>"

section \<open>Vocabulary of the properties\<close>

text \<open>The embedded \<open>BaseSchema\<close> of a schema.\<close>

fun schema_base :: "schema \<Rightarrow> BaseSchema" where
  "schema_base (SString s) = BaseSchema.truncate s"
| "schema_base (SInt s) = BaseSchema.truncate s"
| "schema_base (SFloat s) = BaseSchema.truncate s"
| "schema_base (SBool s) = s"
| "schema_base (SArray s _) = BaseSchema.truncate s"
| "schema_base (SMap s _) = BaseSchema.truncate s"
| "schema_base (SStruct s _) = BaseSchema.truncate s"

fun scalar :: "schema \<Rightarrow> bool" where
  "scalar (SString _) = True"
| "scalar (SInt _) = True"
| "scalar (SFloat _) = True"
| "scalar (SBool _) = True"
| "scalar _ = False"

text \<open>The value has the primitive kind the scalar schema declares.\<close>

fun same_kind :: "schema \<Rightarrow> gvalue \<Rightarrow> bool" where
  "same_kind (SString _) (VString _) = True"
| "same_kind (SInt _) (VInt _ _) = True"
| "same_kind (SFloat _) (VFloat _ _) = True"
| "same_kind (SBool _) (VBool _) = True"
| "same_kind _ _ = False"

text \<open>The failure every schema emits for the nil interface when it is not nilable.\<close>

definition required_failure :: "BaseSchema \<Rightarrow> path \<Rightarrow> ValidationError" where
  "required_failure b p =
     \<lparr>Path = p, Message = getErrorMessage b p ErrCodeRequired ''Required'',
      Code = ErrCodeRequired, Meta = None\<rparr>"

text \<open>The failures a result carries: none for nil.\<close>

fun failures :: "vresult \<Rightarrow> ValidationErrors" where
  "failures (Inr (Some errors)) = errors"
| "failures _ = []"

text \<open>
  The failures the built-in constraints of a scalar schema leave on a value that passed
  its type check, when they run to completion; \<open>None\<close> when the type check fails or the
  integer multiple-of check panics.
\<close>

fun builtin_failures :: "golib \<Rightarrow> schema \<Rightarrow> gvalue \<Rightarrow> path \<Rightarrow> ValidationErrors option" where
  "builtin_failures L (SString s) (VString str) p = Some (String_constraints L s str p)"
| "builtin_failures L (SInt s) (VInt t n) p =
     (case to_int64 t n of
        None \<Rightarrow> None
      | Some num \<Rightarrow>
          (case Int_multipleOf s num p (Int_constraints s num p) of
             Inl _ \<Rightarrow> None
           | Inr errors \<Rightarrow> Some errors))"
| "builtin_failures L (SFloat s) (VFloat t num) p =
     Some (Float_multipleOf L s num p (Float_constraints L s num p))"
| "builtin_failures L (SBool s) (VBool b) p = Some []"
| "builtin_failures _ _ _ _ = None"

text \<open>
  One \<open>custom_validation\<close> failure for each simple refinement that rejects the value, in
  declaration order, with the message \<open>applyRefinements\<close> gives it.
\<close>

definition refinement_failures :: "BaseSchema \<Rightarrow> gvalue \<Rightarrow> path \<Rightarrow> ValidationErrors" where
  "refinement_failures b v p =
     concat (map (\<lambda>refine.
        if fst (refine v) then []
        else [\<lparr>Path = p,
               Message = getErrorMessage b p ErrCodeCustomValidation
                 (if snd (refine v) = [] then ''Custom validation failed'' else snd (refine v)),
               Code = ErrCodeCustomValidation, Meta = None\<rparr>]) (refinements b))"

text \<open>The failures the context-aware refinements add, in the order of their calls.\<close>

fun issue_failure :: "path \<Rightarrow> issue \<Rightarrow> ValidationError" where
  "issue_failure p (AddIssue rel code message) =
     \<lparr>Path = p @ rel, Message = message, Code = code, Meta = None\<rparr>"
| "issue_failure p (AddIssueWithMeta rel code message m) =
     \<lparr>Path = p @ rel, Message = message, Code = code, Meta = m\<rparr>"

definition super_failures :: "BaseSchema \<Rightarrow> gvalue \<Rightarrow> path \<Rightarrow> ValidationErrors" where
  "super_failures b v p =
     concat (map (\<lambda>superRefine. map (issue_failure p) (superRefine v)) (superRefinements b))"

text \<open>A non-empty collection, or nil: what \<open>Validate\<close> hands back after its last step.\<close>

definition present :: "ValidationErrors \<Rightarrow> vresult" where
  "present errors = (if errors = [] then Inr None else Inr (Some errors))"

text \<open>The key under which \<open>Flatten\<close> files a failure whose rendered path is not empty.\<close>

definition field_key :: "path \<Rightarrow> string" where
  "field_key p =
     (case before_index (PathToString p) of
        Some baseField \<Rightarrow> baseField
      | None \<Rightarrow> PathToString p)"

text \<open>
  Plain paths: a name is not empty and holds no opening bracket, an index is not
  negative, and every segment is one or the other.
\<close>

fun is_name :: "segment \<Rightarrow> bool" where
  "is_name (Name _) = True"
| "is_name _ = False"

fun plain_segment :: "segment \<Rightarrow> bool" where
  "plain_segment (Name n) = (n \<noteq> [] \<and> CHR ''['' \<notin> set n)"
| "plain_segment (Idx i) = (0 \<le> i)"
| "plain_segment (SegOther _) = False"

text \<open>The rendering of a path cut before its first index segment.\<close>

definition parent_key :: "path \<Rightarrow> string" where
  "parent_key p = PathToString (takeWhile is_name p)"

text \<open>The messages of the failures that satisfy \<open>P\<close>, in order; no group when there are none.\<close>

definition filed :: "(ValidationError \<Rightarrow> bool) \<Rightarrow> ValidationErrors \<Rightarrow> string list option" where
  "filed P es = (if filter P es = [] then None else Some (map Message (filter P es)))"

text \<open>No integer schema in the tree was built with \<open>MultipleOf(0)\<close>.\<close>

fun panic_free :: "schema \<Rightarrow> bool" where
  "panic_free (SInt s) = (multipleOf_i s \<noteq> Some 0)"
| "panic_free (SArray _ elementSchema) = panic_free elementSchema"
| "panic_free (SMap _ shape) = list_all (\<lambda>(name, sch). panic_free sch) shape"
| "panic_free (SStruct _ shape) = list_all (\<lambda>(name, sch). panic_free sch) shape"
| "panic_free _ = True"

text \<open>The shape of a composite with each child bound to its \<open>Validate\<close> method.\<close>

definition bound_shape :: "golib \<Rightarrow> (string \<times> schema) list \<Rightarrow> (string \<times> Schema) list" where
  "bound_shape L shape = map (\<lambda>(name, sch). (name, \<lambda>x q. Validate L sch x q)) shape"

section \<open>Properties\<close>

lemmas schema_defs =
  Base_zero_def String_schema_def Int_schema_def Float_schema_def Bool_schema_def
  Array_schema_def Map_schema_def Struct_schema_def
  BaseSchema.extend_def StringSchema.fields_def IntSchema.fields_def FloatSchema.fields_def
  ArraySchema.fields_def MapSchema.fields_def StructSchema.fields_def

lemmas ErrCode_defs =
  ErrCodeRequired_def ErrCodeInvalidType_def ErrCodeTooSmall_def ErrCodeTooBig_def
  ErrCodeInvalidString_def ErrCodeInvalidEnumValue_def ErrCodeUnrecognizedKeys_def
  ErrCodeCustomValidation_def

subsection \<open>The shared steps\<close>

lemma getErrorMessage_truncate [simp]:
  "getErrorMessage (BaseSchema.truncate s) p code d = getErrorMessage s p code d"
  by (simp add: getErrorMessage_def BaseSchema.truncate_def split: option.splits)

lemma truncate_base [simp]: "BaseSchema.truncate (s :: BaseSchema) = s"
  by (cases s) (simp add: BaseSchema.truncate_def)

lemma truncate_sel [simp]:
  "nilable (BaseSchema.truncate s) = nilable s"
  "refinements (BaseSchema.truncate s) = refinements s"
  "superRefinements (BaseSchema.truncate s) = superRefinements s"
  by (simp_all add: BaseSchema.truncate_def)

lemma refine_fold:
  "foldl (refine_step s v p) errors rs =
     errors @ concat (map (\<lambda>refine.
        if fst (refine v) then []
        else [\<lparr>Path = p,
               Message = getErrorMessage s p ErrCodeCustomValidation
                 (if snd (refine v) = [] then ''Custom validation failed'' else snd (refine v)),
               Code = ErrCodeCustomValidation, Meta = None\<rparr>]) rs)"
  by (induction rs arbitrary: errors)
     (auto simp: refine_step_def Add_def AddWithMeta_def split: prod.splits)

lemma applyRefinements_eq:
  "applyRefinements s v p errors = errors @ refinement_failures (BaseSchema.truncate s) v p"
  by (simp add: applyRefinements_def refinement_failures_def refine_fold cong: if_cong)

lemma foldl_PathAppend: "foldl PathAppend p rel = p @ rel"
  by (induction rel arbitrary: p) (simp_all add: PathAppend_def)

lemma ctx_call_eq: "ctx_call p errors i = errors @ [issue_failure p i]"
  by (cases i) (simp_all add: Add_def AddWithMeta_def foldl_PathAppend)

lemma ctx_fold: "foldl (ctx_call p) errors is = errors @ map (issue_failure p) is"
  by (induction "is" arbitrary: errors) (simp_all add: ctx_call_eq)

lemma super_fold:
  "foldl (\<lambda>errors superRefine. foldl (ctx_call p) errors (superRefine v)) errors fs =
     errors @ concat (map (\<lambda>superRefine. map (issue_failure p) (superRefine v)) fs)"
  by (induction fs arbitrary: errors) (simp_all add: ctx_fold)

lemma applySuperRefinements_eq:
  "applySuperRefinements s v p errors = errors @ super_failures (BaseSchema.truncate s) v p"
  by (simp add: applySuperRefinements_def super_failures_def super_fold)

lemma finish_eq:
  "finish s v p errors =
     present (errors @ refinement_failures (BaseSchema.truncate s) v p
                @ super_failures (BaseSchema.truncate s) v p)"
  by (simp add: finish_def present_def applyRefinements_eq applySuperRefinements_eq Let_def)

lemma on_nil_eq:
  "on_nil s p =
     (if nilable s then Inr None else Inr (Some [required_failure (BaseSchema.truncate s) p]))"
  by (simp add: on_nil_def required_failure_def Add_def AddWithMeta_def)

lemma invalid_type_eq:
  "invalid_type s p d =
     Inr (Some [\<lparr>Path = p, Message = getErrorMessage s p ErrCodeInvalidType d,
                 Code = ErrCodeInvalidType, Meta = None\<rparr>])"
  by (simp add: invalid_type_def Add_def AddWithMeta_def)

lemma present_nonempty: "present errors \<noteq> Inr (Some [])"
  by (simp add: present_def)

lemmas Validate_defs =
  StringSchema_Validate_def IntSchema_Validate_def FloatSchema_Validate_def
  BoolSchema_Validate_def ArraySchema_Validate_def MapSchema_Validate_def
  StructSchema_Validate_def Struct_body_def

lemmas eval_defs =
  schema_defs ErrCode_defs Validate_defs lib0_def getErrorMessage_def on_nil_def
  invalid_type_def finish_def applyRefinements_def applySuperRefinements_def refine_step_def
  Add_def AddWithMeta_def PathAppend_def required_failure_def BaseSchema.truncate_def

subsection \<open>The nil interface\<close>

text \<open>
  C1. Every schema, validated against the nil interface, returns nil (valid) when it is
  nilable and otherwise a collection holding exactly one failure, whose code is
  \<open>required\<close> (at the current path, with the message \<open>getErrorMessage\<close> resolves from
  the default \<open>Required\<close>). Since the two results differ, each characterises its case:
  the single \<open>required\<close> failure is returned iff the schema is not nilable, nil iff it is.
  A struct schema given a nil pointer answers exactly as it does for the nil interface.
\<close>

theorem Validate_nil:
  "Validate L s VNil p =
     (if nilable (schema_base s) then Inr None
      else Inr (Some [required_failure (schema_base s) p]))
   \<and> Validate L (SStruct c shape) (VPtr t None) p = Validate L (SStruct c shape) VNil p"
  by (cases s) (simp_all add: Validate_defs on_nil_eq)

theorem Validate_nil_witness:
  "Validate lib0 (SArray Array_schema (SInt Int_schema)) VNil [Name ''tags''] =
     Inr (Some [\<lparr>Path = [Name ''tags''], Message = ''Required'', Code = ''required'',
                  Meta = None\<rparr>])
   \<and> Validate lib0 (SFloat (Float_schema\<lparr>nilable := True\<rparr>)) VNil [] = Inr None
   \<and> Validate lib0 (SStruct Struct_schema [(''name'', SString String_schema)])
        (VPtr ''*main.User'' None) [] =
     Inr (Some [\<lparr>Path = [], Message = ''Required'', Code = ''required'', Meta = None\<rparr>])"
  using Validate_nil [where L = lib0 and s = "SArray Array_schema (SInt Int_schema)"
      and p = "[Name ''tags'']"]
    Validate_nil [where L = lib0 and s = "SFloat (Float_schema\<lparr>nilable := True\<rparr>)" and p = "[]"]
    Validate_nil [where L = lib0 and s = "SStruct Struct_schema [(''name'', SString String_schema)]"
      and p = "[]" and c = Struct_schema and shape = "[(''name'', SString String_schema)]"
      and t = "''*main.User''"]
  by (simp add: schema_defs required_failure_def getErrorMessage_def BaseSchema.truncate_def
        ErrCodeRequired_def)

subsection \<open>Type mismatch on a scalar schema\<close>

text \<open>
  C2. A scalar schema (string, integer, float, boolean) given a value that is not the
  nil interface and whose primitive kind is not the one the schema declares (an integer
  given to a float schema and a float given to an integer schema included) returns
  exactly one failure; its code is \<open>invalid_type\<close>, and nothing from a constraint, a
  refinement or a context-aware refinement accompanies it.
\<close>

theorem scalar_kind_mismatch:
  assumes "scalar s" and "v \<noteq> VNil" and "\<not> same_kind s v"
  shows "\<exists>m. Validate L s v p =
           Inr (Some [\<lparr>Path = p, Message = m, Code = ''invalid_type'', Meta = None\<rparr>])"
  using assms
  by (cases s; cases v) (simp_all add: Validate_defs invalid_type_eq ErrCodeInvalidType_def)

theorem scalar_kind_mismatch_witness:
  "scalar (SFloat (Float_schema\<lparr>min_f := Some 10, refinements := [\<lambda>_. (False, ''no'')]\<rparr>))
   \<and> VInt TInt 3 \<noteq> VNil
   \<and> \<not> same_kind (SFloat (Float_schema\<lparr>min_f := Some 10, refinements := [\<lambda>_. (False, ''no'')]\<rparr>))
         (VInt TInt 3)
   \<and> (\<exists>m. Validate lib0
              (SFloat (Float_schema\<lparr>min_f := Some 10, refinements := [\<lambda>_. (False, ''no'')]\<rparr>))
              (VInt TInt 3) [] =
            Inr (Some [\<lparr>Path = [], Message = m, Code = ''invalid_type'', Meta = None\<rparr>]))"
  using scalar_kind_mismatch [of
      "SFloat (Float_schema\<lparr>min_f := Some 10, refinements := [\<lambda>_. (False, ''no'')]\<rparr>)"
      "VInt TInt 3" lib0 "[]"]
  by simp

subsection \<open>Nil or non-empty\<close>

text \<open>
  C9. Whatever the schema and the input, \<open>Validate\<close> never returns a collection that is
  present and empty: a result is nil (valid) or holds at least one failure.
\<close>

theorem Validate_never_empty: "Validate L s v p \<noteq> Inr (Some [])"
  by (cases s)
     (auto simp add: Validate_defs on_nil_eq invalid_type_eq finish_eq present_nonempty Let_def
        split: gvalue.splits option.splits sum.splits)

theorem Validate_never_empty_witness:
  "Validate lib0 (SMap Map_schema []) (VMap ''map[string]interface {}'' []) [] \<noteq> Inr (Some [])
   \<and> Validate lib0 (SMap Map_schema []) (VMap ''map[string]interface {}'' []) [] = Inr None"
  using Validate_never_empty [of lib0 "SMap Map_schema []" "VMap ''map[string]interface {}'' []" "[]"]
  by (simp add: eval_defs build_obj_def)

subsection \<open>When the simple refinements run\<close>

lemmas constraint_eval =
  String_constraints_def Int_constraints_def Int_multipleOf_def Float_constraints_def
  Float_multipleOf_def Float_fraction_def float_to_int64_def Array_constraints_def
  int_to_dec_def digit_char_def
  Let_def

lemma nat_to_dec_digit: "n < 10 \<Longrightarrow> nat_to_dec n = [digit_char n]"
  by (simp add: nat_to_dec.simps)

text \<open>
  C3, as the claim states it, fails: a string schema with minimum length 5 and a simple
  refinement that rejects everything, given \<open>hi\<close>, reports the failed length constraint
  and the refinement's \<open>custom_validation\<close> failure together.
\<close>

theorem refinement_after_failed_constraint_counterexample:
  "map Code (failures (Validate lib0
      (SString (String_schema\<lparr>refinements := [\<lambda>_. (False, ''refused'')], minLength := Some 5\<rparr>))
      (VString ''hi'') [])) = [''too_small'', ''custom_validation'']"
  by (simp add: eval_defs constraint_eval nat_to_dec_digit)

text \<open>
  C3, amended. For every scalar schema the simple refinements are evaluated whenever the
  type check passes, after the built-in constraints and whether or not any of those
  failed: the result is the failures of the built-in constraints, then one
  \<open>custom_validation\<close> failure for each refinement that rejects the value, in declaration
  order, then the failures of the context-aware refinements (nil when all three are empty).
\<close>

theorem refinements_follow_type_check:
  assumes "builtin_failures L s v p = Some cs"
  shows "Validate L s v p =
           present (cs @ refinement_failures (schema_base s) v p
                      @ super_failures (schema_base s) v p)"
  using assms
  by (cases s; cases v)
     (auto simp add: Validate_defs finish_eq split: option.splits sum.splits)

theorem refinements_follow_type_check_witness:
  "builtin_failures lib0
      (SString (String_schema\<lparr>refinements := [\<lambda>_. (False, ''refused'')], minLength := Some 5\<rparr>))
      (VString ''hi'') [] =
     Some [\<lparr>Path = [], Message = ''String must be at least 5 character(s) long, got 2'',
             Code = ''too_small'', Meta = None\<rparr>]
   \<and> Validate lib0
      (SString (String_schema\<lparr>refinements := [\<lambda>_. (False, ''refused'')], minLength := Some 5\<rparr>))
      (VString ''hi'') [] =
     Inr (Some [\<lparr>Path = [], Message = ''String must be at least 5 character(s) long, got 2'',
                  Code = ''too_small'', Meta = None\<rparr>,
                \<lparr>Path = [], Message = ''refused'', Code = ''custom_validation'',
                  Meta = None\<rparr>])"
  using refinements_follow_type_check [of lib0
      "SString (String_schema\<lparr>refinements := [\<lambda>_. (False, ''refused'')], minLength := Some 5\<rparr>)"
      "VString ''hi''" "[]"
      "[\<lparr>Path = [], Message = ''String must be at least 5 character(s) long, got 2'',
          Code = ''too_small'', Meta = None\<rparr>]"]
  by (simp add: schema_defs ErrCode_defs constraint_eval nat_to_dec_digit getErrorMessage_def
        Add_def AddWithMeta_def present_def refinement_failures_def super_failures_def
        BaseSchema.truncate_def)

subsection \<open>How a message is resolved\<close>

text \<open>
  C6. A non-empty message returned by a simple refinement is to take priority over a
  per-code override registered for \<open>custom_validation\<close>. The code does not do that:
  \<open>applyRefinements\<close> hands the returned message to \<open>getErrorMessage\<close> as the default, so
  the override replaces it. The fixed message of the regular-expression constraint, by
  contrast, is used as it is, whatever the table holds for \<open>invalid_string\<close>.
\<close>

theorem refinement_message_replaced_by_override:
  "Validate lib0
      (SString (String_schema\<lparr>customErrors := [''custom_validation'' \<mapsto> ''from the table''],
                               refinements := [\<lambda>_. (False, ''from the refinement'')]\<rparr>))
      (VString ''x'') [] =
     Inr (Some [\<lparr>Path = [], Message = ''from the table'', Code = ''custom_validation'',
                  Meta = None\<rparr>])
   \<and> Validate lib0
      (SString (String_schema\<lparr>customErrors := [''invalid_string'' \<mapsto> ''from the table''],
                               regex := Some (\<lambda>_. False),
                               regexMessage := ''from the pattern''\<rparr>))
      (VString ''x'') [] =
     Inr (Some [\<lparr>Path = [], Message = ''from the pattern'', Code = ''invalid_string'',
                  Meta = None\<rparr>])"
  by (simp add: eval_defs constraint_eval)

subsection \<open>The multiple-of constraint\<close>

text \<open>
  C7. The float schema is meant to accept a value iff the fractional part of
  \<open>value / divisor\<close> lies within a small distance of 0 or of 1, for inputs of either
  sign. The code compares \<open>remainder - float64(int64(remainder))\<close> with 0.0001 and
  0.9999, and for a negative quotient that difference is never positive, so the check
  never fires: \<open>Float().MultipleOf(1)\<close> accepts \<open>-2.5\<close> (and reports \<open>2.5\<close>).
  Every number of this computation (\<open>-2.5\<close>, \<open>1\<close>, \<open>-2\<close>, \<open>-0.5\<close>) is a binary
  floating-point number, so no step of it rounds and the real arithmetic of the model is
  exact here.
\<close>

theorem float_multipleOf_negative_accepted:
  "Validate lib0 (SFloat (Float_schema\<lparr>multipleOf_f := Some 1\<rparr>)) (VFloat TFloat64 (- 5 / 2)) []
     = Inr None
   \<and> Validate lib0 (SFloat (Float_schema\<lparr>multipleOf_f := Some 1\<rparr>)) (VFloat TFloat64 (5 / 2)) []
     = Inr (Some [\<lparr>Path = [], Message = ''Number must be a multiple of ?, got ?'',
                    Code = ''invalid_type'', Meta = None\<rparr>])"
  by (simp add: eval_defs constraint_eval)

text \<open>
  C10. When a correctly typed value fails the multiple-of constraint, the failure an
  integer schema or a float schema emits carries the code \<open>invalid_type\<close>, the code of a
  primitive-kind mismatch, and no code of its own: the result is the failures of the
  range and sign constraints, then that failure, then those of the refinements. The
  float schema's test is the one the code computes in \<open>float64\<close>, every step rounded.
\<close>

theorem multipleOf_failure_is_invalid_type:
  "(multipleOf_i si = Some d \<and> d \<noteq> 0 \<and> to_int64 t n = Some num \<and> num smod d \<noteq> 0 \<longrightarrow>
      Validate L (SInt si) (VInt t n) p =
        Inr (Some (Int_constraints si num p
          @ [\<lparr>Path = p,
               Message = getErrorMessage si p ''invalid_type''
                 (''Number must be a multiple of '' @ int_to_dec d @ '', got '' @ int_to_dec num),
               Code = ''invalid_type'', Meta = None\<rparr>]
          @ refinement_failures (schema_base (SInt si)) (VInt t n) p
          @ super_failures (schema_base (SInt si)) (VInt t n) p)))
   \<and> (multipleOf_f sf = Some r
        \<and> Float_fraction L x r > round64 L 0.0001
        \<and> Float_fraction L x r < round64 L 0.9999 \<longrightarrow>
      Validate L (SFloat sf) (VFloat ft x) p =
        Inr (Some (Float_constraints L sf x p
          @ [\<lparr>Path = p,
               Message = getErrorMessage sf p ''invalid_type''
                 (''Number must be a multiple of '' @ fmt_float L r @ '', got '' @ fmt_float L x),
               Code = ''invalid_type'', Meta = None\<rparr>]
          @ refinement_failures (schema_base (SFloat sf)) (VFloat ft x) p
          @ super_failures (schema_base (SFloat sf)) (VFloat ft x) p)))"
  by (simp add: Validate_defs finish_eq present_def Int_multipleOf_def Float_multipleOf_def
        Let_def Add_def AddWithMeta_def ErrCodeInvalidType_def)

theorem multipleOf_failure_is_invalid_type_witness:
  "Validate lib0 (SInt (Int_schema\<lparr>multipleOf_i := Some 5\<rparr>)) (VInt TInt 7) [] =
     Inr (Some [\<lparr>Path = [], Message = ''Number must be a multiple of 5, got 7'',
                  Code = ''invalid_type'', Meta = None\<rparr>])
   \<and> Float_fraction lib0 3 2 = 1 / 2
   \<and> Validate lib0 (SFloat (Float_schema\<lparr>multipleOf_f := Some 2\<rparr>)) (VFloat TFloat64 3) [] =
     Inr (Some [\<lparr>Path = [], Message = ''Number must be a multiple of ?, got ?'',
                  Code = ''invalid_type'', Meta = None\<rparr>])"
  using multipleOf_failure_is_invalid_type [where L = lib0
      and si = "Int_schema\<lparr>multipleOf_i := Some 5\<rparr>" and d = 5 and t = TInt and n = 7
      and num = 7 and p = "[]"
      and sf = "Float_schema\<lparr>multipleOf_f := Some 2\<rparr>" and r = 2 and x = 3
      and ft = TFloat64]
  by (simp add: schema_defs constraint_eval nat_to_dec_digit getErrorMessage_def lib0_def
        refinement_failures_def super_failures_def BaseSchema.truncate_def smod_int_alt_def)

subsection \<open>Loops over children\<close>

lemma collect_all:
  "\<forall>r\<in>set rs. \<exists>x. r = Inr x \<Longrightarrow> collect errors rs = Inr (errors @ concat (map failures rs))"
proof (induction rs arbitrary: errors)
  case Nil
  then show ?case by simp
next
  case (Cons r rs)
  then obtain x where r: "r = Inr x" by auto
  from Cons have rest: "\<And>es. collect es rs = Inr (es @ concat (map failures rs))" by simp
  show ?case
    by (cases x) (simp_all add: r rest)
qed

lemma map_enumerate_nth:
  "map (\<lambda>(i, x). g i x) (enumerate 0 xs) = map (\<lambda>i. g i (xs ! i)) [0..<length xs]"
  by (rule nth_equalityI) (simp_all add: nth_enumerate_eq)

lemma bound_shape_snd:
  "(name, child) \<in> set (bound_shape L shape) \<Longrightarrow>
     \<exists>sch. (name, sch) \<in> set shape \<and> child = (\<lambda>x q. Validate L sch x q)"
  by (auto simp: bound_shape_def)

lemma ArraySchema_Validate_slice:
  "as_slice v = Some slice \<Longrightarrow>
     ArraySchema_Validate s elementSchema v p =
       (case collect (Array_constraints s slice p)
               (map (\<lambda>(i, element). elementSchema element (PathAppend p (Idx (int i))))
                  (enumerate 0 slice)) of
          Inl e \<Rightarrow> Inl e
        | Inr errors \<Rightarrow> finish s v p errors)"
  by (cases v) (simp_all add: ArraySchema_Validate_def cong: sum.case_cong)

lemma ArraySchema_Validate_other:
  "as_slice v = None \<Longrightarrow>
     ArraySchema_Validate s elementSchema v p =
       (if v = VNil then on_nil s p
        else invalid_type s p (''Expected array, got '' @ type_name v))"
  by (cases v) (simp_all add: ArraySchema_Validate_def)

text \<open>
  A schema tree without \<open>MultipleOf(0)\<close> never panics: \<open>Validate\<close> returns on every
  value and path.
\<close>

lemma Validate_total: "panic_free s \<Longrightarrow> \<exists>r. Validate L s v p = Inr r"
proof (induction s arbitrary: v p)
  case (SString s)
  show ?case
    by (simp add: Validate_defs on_nil_eq invalid_type_eq finish_eq present_def
          split: gvalue.splits)
next
  case (SInt s)
  then show ?case
    by (cases "multipleOf_i s")
       (auto simp add: Validate_defs on_nil_eq invalid_type_eq finish_eq present_def
          Int_multipleOf_def split: gvalue.splits option.splits)
next
  case (SFloat s)
  show ?case
    by (simp add: Validate_defs on_nil_eq invalid_type_eq finish_eq present_def
          split: gvalue.splits)
next
  case (SBool s)
  show ?case
    by (simp add: Validate_defs on_nil_eq invalid_type_eq finish_eq present_def
          split: gvalue.splits)
next
  case (SArray s e)
  then have ih: "\<And>x q. \<exists>r. Validate L e x q = Inr r" by simp
  show ?case
  proof (cases "as_slice v")
    case None
    then show ?thesis
      by (simp add: ArraySchema_Validate_other on_nil_eq invalid_type_eq)
  next
    case (Some xs)
    have "\<forall>r\<in>set (map (\<lambda>(i, element). Validate L e element (PathAppend p (Idx (int i))))
                       (enumerate 0 xs)). \<exists>x. r = Inr x"
      using ih by auto
    from collect_all [OF this] Some show ?thesis
      by (simp add: ArraySchema_Validate_slice finish_eq present_def)
  qed
next
  case (SMap s shape)
  have ih: "\<And>name sch x q. (name, sch) \<in> set shape \<Longrightarrow> \<exists>r. Validate L sch x q = Inr r"
  proof -
    fix name sch x q
    assume mem: "(name, sch) \<in> set shape"
    with SMap.prems have "panic_free sch"
      by (auto simp: list_all_iff)
    with SMap.IH [OF mem, of sch] show "\<exists>r. Validate L sch x q = Inr r"
      by simp
  qed
  have all: "\<And>obj. \<forall>r\<in>set (map (Map_field obj p) (bound_shape L shape)). \<exists>x. r = Inr x"
    using ih by (auto simp: bound_shape_def Map_field_def Let_def)
  show ?case
    using collect_all [OF all]
    by (simp add: Validate_defs on_nil_eq invalid_type_eq finish_eq present_def Let_def
          bound_shape_def [symmetric] split: gvalue.splits)
next
  case (SStruct s shape)
  have ih: "\<And>name sch x q. (name, sch) \<in> set shape \<Longrightarrow> \<exists>r. Validate L sch x q = Inr r"
  proof -
    fix name sch x q
    assume mem: "(name, sch) \<in> set shape"
    with SStruct.prems have "panic_free sch"
      by (auto simp: list_all_iff)
    with SStruct.IH [OF mem, of sch] show "\<exists>r. Validate L sch x q = Inr r"
      by simp
  qed
  have all: "\<And>fieldMap. \<forall>r\<in>set (map (Struct_field fieldMap p) (bound_shape L shape)).
                \<exists>x. r = Inr x"
    using ih by (auto simp: bound_shape_def Struct_field_def Let_def split: option.splits)
  have body: "\<And>w val. \<exists>r. Struct_body L s (bound_shape L shape) w val p = Inr r"
    using collect_all [OF all]
    by (simp add: Struct_body_def invalid_type_eq finish_eq present_def Let_def
          split: option.splits)
  show ?case
    using body
    by (simp add: StructSchema_Validate_def on_nil_eq bound_shape_def [symmetric]
          split: gvalue.splits option.splits)
qed

text \<open>
  What the element loop leaves when no element's validation panics: the failures of the
  length constraints, then those of elements \<open>0, ..., n - 1\<close> in turn, each element's in
  the order its own validation found them, then those of the refinements on the whole
  collection.
\<close>

lemma array_elements_when_no_panic:
  assumes "as_slice v = Some slice"
    and "\<And>i. i < length slice \<Longrightarrow>
           \<exists>r. Validate L elementSchema (slice ! i) (p @ [Idx (int i)]) = Inr r"
  shows "Validate L (SArray s elementSchema) v p =
           present (Array_constraints s slice p
             @ concat (map (\<lambda>i. failures (Validate L elementSchema (slice ! i) (p @ [Idx (int i)])))
                         [0..<length slice])
             @ refinement_failures (schema_base (SArray s elementSchema)) v p
             @ super_failures (schema_base (SArray s elementSchema)) v p)"
proof -
  let ?rs = "map (\<lambda>(i, element). Validate L elementSchema element (PathAppend p (Idx (int i))))
               (enumerate 0 slice)"
  have rs: "?rs = map (\<lambda>i. Validate L elementSchema (slice ! i) (p @ [Idx (int i)]))
                    [0..<length slice]"
    using map_enumerate_nth [of "\<lambda>i x. Validate L elementSchema x (p @ [Idx (int i)])" slice]
    by (simp add: PathAppend_def)
  have "\<forall>r\<in>set ?rs. \<exists>x. r = Inr x"
    unfolding rs using assms(2) by auto
  then have "collect (Array_constraints s slice p) ?rs =
               Inr (Array_constraints s slice p @ concat (map failures ?rs))"
    by (rule collect_all)
  moreover have "map failures ?rs =
      map (\<lambda>i. failures (Validate L elementSchema (slice ! i) (p @ [Idx (int i)])))
        [0..<length slice]"
    unfolding rs by (simp add: comp_def)
  ultimately show ?thesis
    using assms(1) by (simp add: ArraySchema_Validate_slice finish_eq)
qed

text \<open>
  C5. An array schema is to validate every element of an ordered collection, whatever
  the earlier elements produced, and to append their failures in index order. The loop
  has no exit of its own, but an integer element schema built with \<open>MultipleOf(0)\<close>
  divides by zero on the first integer it is given: \<open>Array(Int().MultipleOf(0))\<close> on
  \<open>[1, "a"]\<close> panics at element 0, element 1 is never validated and no collection is
  returned. With the divisor 5 the same input yields the failure of element 0 and then
  that of element 1.
\<close>

theorem array_element_panic_ends_loop:
  "Validate lib0 (SArray Array_schema (SInt (Int_schema\<lparr>multipleOf_i := Some 0\<rparr>)))
      (VSlice ''[]interface {}'' [VInt TInt 1, VString ''a'']) [] = Inl DivideByZero
   \<and> Validate lib0 (SArray Array_schema (SInt (Int_schema\<lparr>multipleOf_i := Some 5\<rparr>)))
      (VSlice ''[]interface {}'' [VInt TInt 1, VString ''a'']) [] =
     Inr (Some [\<lparr>Path = [Idx 0], Message = ''Number must be a multiple of 5, got 1'',
                  Code = ''invalid_type'', Meta = None\<rparr>,
                \<lparr>Path = [Idx 1], Message = ''Expected integer, got string'',
                  Code = ''invalid_type'', Meta = None\<rparr>])"
  by (simp add: eval_defs constraint_eval nat_to_dec_digit smod_int_alt_def)

subsection \<open>A missing key and a nil value\<close>










subsection \<open>\<open>Flatten\<close>\<close>

lemma Flatten_snoc: "Flatten (es @ [e]) = flatten_step (Flatten es) e"
  by (simp add: Flatten_def)

lemma Flatten_Nil: "Flatten [] = \<lparr>FormErrors = [], FieldErrors = Map.empty\<rparr>"
  by (simp add: Flatten_def)

text \<open>What \<open>Flatten\<close> computes, in terms of the rendered path.\<close>

lemma Flatten_by_rendered_path:
  "FormErrors (Flatten es) = map Message (filter (\<lambda>e. PathToString (Path e) = []) es)
   \<and> (\<forall>k. FieldErrors (Flatten es) k =
          filed (\<lambda>e. PathToString (Path e) \<noteq> [] \<and> field_key (Path e) = k) es)"
proof (induction es rule: rev_induct)
  case Nil
  show ?case by (simp add: Flatten_Nil filed_def)
next
  case (snoc e es)
  show ?case
  proof (cases "PathToString (Path e) = []")
    case True
    with snoc show ?thesis
      by (simp add: Flatten_snoc flatten_step_def filed_def)
  next
    case False
    with snoc show ?thesis
      by (auto simp add: Flatten_snoc flatten_step_def filed_def field_key_def append_field_def
            Let_def split: option.splits)
  qed
qed

lemma is_digit_digit_char: "is_digit (digit_char d)"
proof -
  have "d mod 10 < length ''0123456789''" by simp
  then have "''0123456789'' ! (d mod 10) \<in> set ''0123456789''" by (rule nth_mem)
  then show ?thesis by (simp only: is_digit_def digit_char_def)
qed

lemma nat_to_dec_digits: "nat_to_dec n \<noteq> [] \<and> list_all is_digit (nat_to_dec n)"
proof (induction n rule: nat_to_dec.induct)
  case (1 n)
  show ?case
  proof (cases "n < 10")
    case True
    then show ?thesis
      by (simp add: nat_to_dec.simps [of n] is_digit_digit_char)
  next
    case False
    with 1 show ?thesis
      by (simp add: nat_to_dec.simps [of n] is_digit_digit_char)
  qed
qed

lemma not_digit_close: "\<not> is_digit (CHR '']'')"
  by (simp add: is_digit_def)

lemma digits_then_close_digits:
  "list_all is_digit ds \<Longrightarrow> digits_then_close (ds @ CHR '']'' # rest)"
  by (induction ds) (simp_all add: not_digit_close)

lemma index_here_rendered:
  assumes "ds \<noteq> []" and "list_all is_digit ds"
  shows "index_here (CHR ''['' # ds @ CHR '']'' # rest)"
proof -
  from assms(1) obtain d ds' where ds: "ds = d # ds'" by (cases ds) auto
  with assms(2) have "is_digit d" and "list_all is_digit ds'" by simp_all
  then show ?thesis
    by (simp add: ds digits_then_close_digits)
qed

lemma index_here_bracket: "index_here s \<Longrightarrow> \<exists>cs. s = CHR ''['' # cs"
  by (cases s rule: index_here.cases) simp_all

lemma before_index_prefix:
  assumes "CHR ''['' \<notin> set s" and "index_here t"
  shows "before_index (s @ t) = Some s"
  using assms
proof (induction s)
  case Nil
  then obtain cs where "t = CHR ''['' # cs" using index_here_bracket by blast
  with Nil show ?case by simp
next
  case (Cons c s)
  then have "c \<noteq> CHR ''[''" by auto
  then have "\<not> index_here (c # s @ t)"
    using index_here_bracket by fastforce
  with Cons show ?case by simp
qed

lemma before_index_none: "CHR ''['' \<notin> set s \<Longrightarrow> before_index s = None"
proof (induction s)
  case Nil
  show ?case by simp
next
  case (Cons c s)
  then have "\<not> index_here (c # s)"
    using index_here_bracket by fastforce
  with Cons show ?case by simp
qed

lemma join_parts_append: "join_parts r ps = r @ join_parts [] ps"
proof (induction ps arbitrary: r)
  case Nil
  show ?case by simp
next
  case (Cons q ps)
  show ?case
    using Cons [of "r @ q"] Cons [of "r @ ''.'' @ q"] Cons [of q] Cons [of "''.'' @ q"]
    by simp
qed

lemma join_parts_names:
  assumes "\<forall>x\<in>set ns. is_name x \<and> plain_segment x" and "CHR ''['' \<notin> set r"
  shows "CHR ''['' \<notin> set (join_parts r (map render_part ns))"
  using assms
proof (induction ns arbitrary: r)
  case Nil
  then show ?case by simp
next
  case (Cons x ns)
  then obtain n where x: "x = Name n" and n: "CHR ''['' \<notin> set n"
    by (cases x) auto
  have "CHR ''['' \<notin> set (r @ n)" and "CHR ''['' \<notin> set (r @ ''.'' @ n)"
    using Cons.prems(2) n by simp_all
  with Cons show ?case
    by (simp add: x)
qed

lemma PathToString_names:
  assumes "\<forall>x\<in>set ns. is_name x \<and> plain_segment x"
  shows "CHR ''['' \<notin> set (PathToString ns)"
proof (cases ns)
  case Nil
  then show ?thesis by (simp add: PathToString_def)
next
  case (Cons x xs)
  with assms obtain n where x: "x = Name n" and n: "CHR ''['' \<notin> set n"
    by (cases x) auto
  from assms Cons have "\<forall>y\<in>set xs. is_name y \<and> plain_segment y" by simp
  from join_parts_names [OF this n] show ?thesis
    by (simp add: PathToString_def Cons x)
qed

lemma PathToString_at_index:
  assumes "0 \<le> i"
  shows "\<exists>t. PathToString (ns @ Idx i # rest) = PathToString ns @ t \<and> index_here t"
proof -
  obtain ds where ds: "int_to_dec i = ds" "ds \<noteq> []" "list_all is_digit ds"
    using assms nat_to_dec_digits [of "nat i"] by (simp add: int_to_dec_def)
  let ?part = "CHR ''['' # ds @ '']''"
  have part: "render_part (Idx i) = ?part" by (simp add: ds)
  have pre: "prefix ''['' ?part" by simp
  show ?thesis
  proof (cases ns)
    case Nil
    have "PathToString (Idx i # rest) = ?part @ join_parts [] (map render_part rest)"
      using join_parts_append [of ?part] by (simp add: PathToString_def ds)
    moreover have "index_here (CHR ''['' # ds @ CHR '']'' # join_parts [] (map render_part rest))"
      using ds by (intro index_here_rendered)
    ultimately show ?thesis
      by (simp add: Nil PathToString_def)
  next
    case (Cons x xs)
    have split: "\<And>r ps qs. join_parts r (ps @ qs) = join_parts (join_parts r ps) qs"
    proof -
      fix r :: string and ps qs :: "string list"
      show "join_parts r (ps @ qs) = join_parts (join_parts r ps) qs"
        by (induction ps arbitrary: r) simp_all
    qed
    have "PathToString (ns @ Idx i # rest) =
            join_parts (PathToString ns) (?part # map render_part rest)"
      using split [of "render_part x" "map render_part xs" "?part # map render_part rest"]
      by (simp add: PathToString_def Cons ds)
    also have "\<dots> = join_parts (PathToString ns @ ?part) (map render_part rest)"
      by simp
    also have "\<dots> = PathToString ns @ ?part @ join_parts [] (map render_part rest)"
      using join_parts_append [of "PathToString ns @ ?part"] by simp
    finally have "PathToString (ns @ Idx i # rest) =
        PathToString ns @ (CHR ''['' # ds @ CHR '']'' # join_parts [] (map render_part rest))"
      by simp
    moreover have "index_here (CHR ''['' # ds @ CHR '']'' # join_parts [] (map render_part rest))"
      using ds by (intro index_here_rendered)
    ultimately show ?thesis by blast
  qed
qed

lemma field_key_plain:
  assumes "list_all plain_segment p"
  shows "field_key p = parent_key p"
proof (cases "dropWhile is_name p")
  case Nil
  then have all: "\<forall>x\<in>set p. is_name x"
    by simp
  then have tw: "takeWhile is_name p = p"
    by (simp add: takeWhile_eq_all_conv)
  have "CHR ''['' \<notin> set (PathToString p)"
    using all assms by (intro PathToString_names) (simp add: list_all_iff)
  then show ?thesis
    unfolding field_key_def parent_key_def tw by (simp add: before_index_none)
next
  case (Cons x rest)
  have p: "p = takeWhile is_name p @ x # rest"
    using Cons by (metis takeWhile_dropWhile_id)
  have "\<not> is_name x"
    using Cons by (metis hd_dropWhile list.sel(1) list.distinct(1))
  moreover have "plain_segment x"
    using assms p by (metis in_set_conv_decomp list_all_iff)
  ultimately obtain i where x: "x = Idx i" and i: "0 \<le> i"
    by (cases x) auto
  have names: "\<forall>y\<in>set (takeWhile is_name p). is_name y \<and> plain_segment y"
    using assms by (auto simp: list_all_iff dest: set_takeWhileD)
  obtain t where t: "PathToString (takeWhile is_name p @ Idx i # rest) =
      PathToString (takeWhile is_name p) @ t" "index_here t"
    using PathToString_at_index [OF i] by blast
  have "before_index (PathToString (takeWhile is_name p) @ t) =
          Some (PathToString (takeWhile is_name p))"
    using PathToString_names [OF names] t(2) by (rule before_index_prefix)
  with t(1) p x show ?thesis
    by (simp add: field_key_def parent_key_def)
qed

lemma PathToString_plain_nonempty:
  assumes "list_all plain_segment p" and "p \<noteq> []"
  shows "PathToString p \<noteq> []"
proof -
  from assms(2) obtain x xs where p: "p = x # xs" by (cases p) auto
  with assms(1) have "render_part x \<noteq> []"
    by (cases x) simp_all
  then show ?thesis
    using join_parts_append [of "render_part x" "map render_part xs"]
    by (simp add: PathToString_def p)
qed

lemma filed_cong:
  "(\<And>e. e \<in> set es \<Longrightarrow> P e = Q e) \<Longrightarrow> filed P es = filed Q es"
proof -
  assume "\<And>e. e \<in> set es \<Longrightarrow> P e = Q e"
  then have "filter P es = filter Q es"
    by (intro filter_cong) simp_all
  then show ?thesis
    by (simp add: filed_def)
qed

text \<open>
  C8, as the claim states it, fails, because \<open>Flatten\<close> decides on the rendered path
  string and not on the path. A failure whose path is the single empty name is non-empty
  and still goes to the form errors; a failure at a name that contains a bracketed number
  is filed under the text before that bracket, though its path has no index segment; and
  a negative index is not merged into its parent field.
\<close>

theorem Flatten_counterexample:
  "FormErrors (Flatten [\<lparr>Path = [Name []], Message = ''m1'', Code = ''required'', Meta = None\<rparr>])
     = [''m1'']
   \<and> FieldErrors (Flatten [\<lparr>Path = [Name []], Message = ''m1'', Code = ''required'', Meta = None\<rparr>])
       (PathToString [Name []]) = None
   \<and> FieldErrors (Flatten [\<lparr>Path = [Name ''a[0]''], Message = ''m2'', Code = ''required'',
                               Meta = None\<rparr>]) ''a[0]'' = None
   \<and> FieldErrors (Flatten [\<lparr>Path = [Name ''a[0]''], Message = ''m2'', Code = ''required'',
                               Meta = None\<rparr>]) ''a'' = Some [''m2'']
   \<and> FieldErrors (Flatten [\<lparr>Path = [Name ''tags'', Idx (- 1)], Message = ''m3'', Code = ''custom'',
                               Meta = None\<rparr>]) ''tags'' = None
   \<and> FieldErrors (Flatten [\<lparr>Path = [Name ''tags'', Idx (- 1)], Message = ''m3'', Code = ''custom'',
                               Meta = None\<rparr>]) ''tags[-1]'' = Some [''m3'']"
  by (simp add: Flatten_def flatten_step_def PathToString_def append_field_def int_to_dec_def
        nat_to_dec_digit digit_char_def is_digit_def Let_def)

text \<open>
  C8, amended. Provided every name segment is non-empty and holds no opening bracket and
  every index segment is a non-negative integer, \<open>Flatten\<close> partitions a failure
  collection so that every failure with an empty path contributes its message to the
  form-errors list, and every failure with a non-empty path contributes its message to the
  field-errors group keyed by the rendered string of its path cut before the first index
  segment, so that a failure at or below an element is filed under the field that holds
  the collection; messages keep their discovery order, and a key has a group only when
  some failure is filed under it. Failures at \<open>["tags", 0]\<close> and \<open>["tags", 1]\<close> both
  appear, in discovery order, under the single key \<open>tags\<close>.
\<close>

theorem Flatten_plain_paths:
  assumes "list_all (\<lambda>e. list_all plain_segment (Path e)) es"
  shows "FormErrors (Flatten es) = map Message (filter (\<lambda>e. Path e = []) es)
       \<and> FieldErrors (Flatten es) k = filed (\<lambda>e. Path e \<noteq> [] \<and> parent_key (Path e) = k) es"
proof -
  have empty: "\<And>e. e \<in> set es \<Longrightarrow> (PathToString (Path e) = []) = (Path e = [])"
  proof -
    fix e
    assume "e \<in> set es"
    with assms have "list_all plain_segment (Path e)" by (simp add: list_all_iff)
    then show "(PathToString (Path e) = []) = (Path e = [])"
      using PathToString_plain_nonempty [of "Path e"] by (auto simp: PathToString_def)
  qed
  have key: "\<And>e. e \<in> set es \<Longrightarrow> field_key (Path e) = parent_key (Path e)"
    using assms by (simp add: field_key_plain list_all_iff)
  have "filter (\<lambda>e. PathToString (Path e) = []) es = filter (\<lambda>e. Path e = []) es"
    by (intro filter_cong) (simp_all add: empty)
  moreover have "filed (\<lambda>e. PathToString (Path e) \<noteq> [] \<and> field_key (Path e) = k) es =
                 filed (\<lambda>e. Path e \<noteq> [] \<and> parent_key (Path e) = k) es"
    by (intro filed_cong) (simp add: empty key)
  ultimately show ?thesis
    using Flatten_by_rendered_path [of es] by simp
qed

theorem Flatten_plain_paths_witness:
  "list_all (\<lambda>e. list_all plain_segment (Path e))
      [\<lparr>Path = [], Message = ''Form error'', Code = ''required'', Meta = None\<rparr>,
       \<lparr>Path = [Name ''name''], Message = ''Name required'', Code = ''required'', Meta = None\<rparr>,
       \<lparr>Path = [Name ''tags'', Idx 0], Message = ''Tag 0'', Code = ''required'', Meta = None\<rparr>,
       \<lparr>Path = [Name ''tags'', Idx 1], Message = ''Tag 1'', Code = ''required'', Meta = None\<rparr>]
   \<and> FormErrors (Flatten
        [\<lparr>Path = [], Message = ''Form error'', Code = ''required'', Meta = None\<rparr>,
         \<lparr>Path = [Name ''name''], Message = ''Name required'', Code = ''required'', Meta = None\<rparr>,
         \<lparr>Path = [Name ''tags'', Idx 0], Message = ''Tag 0'', Code = ''required'', Meta = None\<rparr>,
         \<lparr>Path = [Name ''tags'', Idx 1], Message = ''Tag 1'', Code = ''required'', Meta = None\<rparr>])
      = [''Form error'']
   \<and> FieldErrors (Flatten
        [\<lparr>Path = [], Message = ''Form error'', Code = ''required'', Meta = None\<rparr>,
         \<lparr>Path = [Name ''name''], Message = ''Name required'', Code = ''required'', Meta = None\<rparr>,
         \<lparr>Path = [Name ''tags'', Idx 0], Message = ''Tag 0'', Code = ''required'', Meta = None\<rparr>,
         \<lparr>Path = [Name ''tags'', Idx 1], Message = ''Tag 1'', Code = ''required'', Meta = None\<rparr>])
        ''tags''
      = Some [''Tag 0'', ''Tag 1'']"
  using Flatten_plain_paths [of
      "[\<lparr>Path = [], Message = ''Form error'', Code = ''required'', Meta = None\<rparr>,
        \<lparr>Path = [Name ''name''], Message = ''Name required'', Code = ''required'', Meta = None\<rparr>,
        \<lparr>Path = [Name ''tags'', Idx 0], Message = ''Tag 0'', Code = ''required'', Meta = None\<rparr>,
        \<lparr>Path = [Name ''tags'', Idx 1], Message = ''Tag 1'', Code = ''required'', Meta = None\<rparr>]"
      "''tags''"]
  by (simp add: filed_def parent_key_def PathToString_def)

end
